theory Spec2Isabelle
  imports Main "HOL-Library.Monad_Syntax"
begin

section \<open>JSON-LD structured data for blog posts\<close>

text \<open>
  The two generators of \<^verbatim>\<open>features/Blog/lib\<close>: \<^verbatim>\<open>generateArticleSchema\<close> and
  \<^verbatim>\<open>generateBreadcrumbSchema\<close>. A JavaScript string is a \<^typ>\<open>string\<close>, a template literal
  is list concatenation, an optional property \<^verbatim>\<open>f?: T\<close> is a field of type \<open>T option\<close>
  (\<open>None\<close> is \<^verbatim>\<open>undefined\<close>, that is, the property is not there). The generators only
  concatenate strings, test one for emptiness and compare a prefix, so nothing depends on
  what a character is.

  Field names are the source's, except where a name is an Isabelle keyword or a constant
  of HOL, or where two interfaces share it; then it carries the interface as a prefix:
  \<^verbatim>\<open>'@context'\<close> and \<^verbatim>\<open>'@type'\<close> are \<open>*_context\<close> and \<open>*_type\<close>, \<^verbatim>\<open>name\<close> is
  \<open>person_name\<close>, \<open>org_name\<close>, \<open>item_name\<close>, and so on.
\<close>

subsection \<open>The input: a blog post\<close>

record Heading =
  heading_id :: string
  heading_text :: string
  heading_level :: nat

text \<open>
  Modelled from the spec: the declaration of \<^verbatim>\<open>BlogPost\<close> (\<^verbatim>\<open>types/blog\<close>) is not among
  the sources. The fields are those the spec's data model names and the generator of the
  property tests builds; \<^verbatim>\<open>Category\<close> and \<^verbatim>\<open>Locale\<close> are strings at run time.
\<close>

record BlogPost =
  title :: string
  description :: string
  slug :: string
  publishedAt :: string
  updatedAt :: "string option"
  author :: string
  category :: string
  tags :: "string list"
  featuredImage :: "string option"
  readingTime :: int
  difficulty :: "string option"
  relatedPosts :: "string list option"
  post_locale :: string
  content :: string
  headings :: "Heading list"

subsection \<open>The outputs\<close>

record Person =
  person_type :: string
  person_name :: string

record ImageObject =
  image_type :: string
  url :: string

record Organization =
  org_type :: string
  org_name :: string
  logo :: "ImageObject option"

record ArticleSchema =
  article_context :: string
  article_type :: string
  headline :: string
  article_description :: string
  datePublished :: string
  dateModified :: "string option"
  article_author :: Person
  publisher :: Organization
  mainEntityOfPage :: string
  article_image :: "string option"

record ArticleSchemaOptions =
  baseUrl :: "string option"
  publisherName :: "string option"
  publisherLogo :: "string option"

record BreadcrumbListItem =
  item_type :: string
  position :: nat
  item_name :: string
  item :: string

record BreadcrumbSchema =
  breadcrumb_context :: string
  breadcrumb_type :: string
  itemListElement :: "BreadcrumbListItem list"

record BreadcrumbSchemaOptions =
  crumb_baseUrl :: "string option"
  homeLabel :: "string option"
  blogLabel :: "string option"

subsection \<open>The JavaScript operators the generators use\<close>

text \<open>\<^verbatim>\<open>a ?? b\<close>: the right operand only when the left one is \<^verbatim>\<open>undefined\<close>.\<close>

definition nullish :: "'a option \<Rightarrow> 'a \<Rightarrow> 'a" where
  "nullish a b = (case a of None \<Rightarrow> b | Some v \<Rightarrow> v)"

text \<open>\<^verbatim>\<open>if (s)\<close> on a string: the empty string is falsy, every other string is truthy.\<close>

definition truthy :: "string \<Rightarrow> bool" where
  "truthy s = (s \<noteq> [])"

text \<open>\<^verbatim>\<open>s.startsWith(searchString)\<close>, from position 0.\<close>

definition startsWith :: "string \<Rightarrow> string \<Rightarrow> bool" where
  "startsWith s searchString = (take (length searchString) s = searchString)"

subsection \<open>Module constants\<close>

text \<open>Both modules declare \<^verbatim>\<open>BASE_URL\<close>, with the same value.\<close>

definition BASE_URL :: string where
  "BASE_URL = ''https://kanadojo.com''"

definition PUBLISHER_NAME :: string where
  "PUBLISHER_NAME = ''KanaDojo''"

definition PUBLISHER_LOGO :: string where
  "PUBLISHER_LOGO = ''https://kanadojo.com/logo.png''"

subsection \<open>generateArticleSchema\<close>

text \<open>The default value \<^verbatim>\<open>{}\<close> of the parameter \<^verbatim>\<open>options\<close>.\<close>

definition no_article_options :: ArticleSchemaOptions where
  "no_article_options = \<lparr>baseUrl = None, publisherName = None, publisherLogo = None\<rparr>"

text \<open>
  The object literal of the source has neither \<^verbatim>\<open>dateModified\<close> nor \<^verbatim>\<open>image\<close>; the two
  conditionals that follow assign them.
\<close>

definition generateArticleSchema :: "BlogPost \<Rightarrow> ArticleSchemaOptions option \<Rightarrow> ArticleSchema" where
  "generateArticleSchema post options_arg =
     (let options = nullish options_arg no_article_options;
          baseUrl' = nullish (baseUrl options) BASE_URL;
          publisherName' = nullish (publisherName options) PUBLISHER_NAME;
          publisherLogo' = nullish (publisherLogo options) PUBLISHER_LOGO;
          mainEntityOfPage' = baseUrl' @ ''/'' @ post_locale post @ ''/blog/'' @ slug post;
          schema0 = \<lparr>article_context = ''https://schema.org'',
                     article_type = ''Article'',
                     headline = title post,
                     article_description = description post,
                     datePublished = publishedAt post,
                     dateModified = None,
                     article_author = \<lparr>person_type = ''Person'', person_name = author post\<rparr>,
                     publisher = \<lparr>org_type = ''Organization'',
                                  org_name = publisherName',
                                  logo = Some \<lparr>image_type = ''ImageObject'', url = publisherLogo'\<rparr>\<rparr>,
                     mainEntityOfPage = mainEntityOfPage',
                     article_image = None\<rparr>;
          schema1 = (case updatedAt post of
                       None \<Rightarrow> schema0
                     | Some u \<Rightarrow> if truthy u then schema0\<lparr>dateModified := Some u\<rparr> else schema0);
          schema2 = (case featuredImage post of
                       None \<Rightarrow> schema1
                     | Some f \<Rightarrow>
                         if truthy f
                         then schema1\<lparr>article_image :=
                                Some (if startsWith f ''http'' then f else baseUrl' @ f)\<rparr>
                         else schema1)
      in schema2)"

text \<open>The base URL, publisher name and publisher logo in effect for an options argument.\<close>

definition article_baseUrl :: "ArticleSchemaOptions option \<Rightarrow> string" where
  "article_baseUrl options_arg = nullish (baseUrl (nullish options_arg no_article_options)) BASE_URL"

definition article_publisherName :: "ArticleSchemaOptions option \<Rightarrow> string" where
  "article_publisherName options_arg =
     nullish (publisherName (nullish options_arg no_article_options)) PUBLISHER_NAME"

definition article_publisherLogo :: "ArticleSchemaOptions option \<Rightarrow> string" where
  "article_publisherLogo options_arg =
     nullish (publisherLogo (nullish options_arg no_article_options)) PUBLISHER_LOGO"

subsection \<open>generateBreadcrumbSchema\<close>

definition no_breadcrumb_options :: BreadcrumbSchemaOptions where
  "no_breadcrumb_options = \<lparr>crumb_baseUrl = None, homeLabel = None, blogLabel = None\<rparr>"

definition generateBreadcrumbSchema ::
  "BlogPost \<Rightarrow> BreadcrumbSchemaOptions option \<Rightarrow> BreadcrumbSchema" where
  "generateBreadcrumbSchema post options_arg =
     (let options = nullish options_arg no_breadcrumb_options;
          baseUrl' = nullish (crumb_baseUrl options) BASE_URL;
          homeLabel' = nullish (homeLabel options) ''Home'';
          blogLabel' = nullish (blogLabel options) ''Blog''
      in \<lparr>breadcrumb_context = ''https://schema.org'',
          breadcrumb_type = ''BreadcrumbList'',
          itemListElement =
            [\<lparr>item_type = ''ListItem'', position = 1, item_name = homeLabel',
              item = baseUrl' @ ''/'' @ post_locale post\<rparr>,
             \<lparr>item_type = ''ListItem'', position = 2, item_name = blogLabel',
              item = baseUrl' @ ''/'' @ post_locale post @ ''/blog''\<rparr>,
             \<lparr>item_type = ''ListItem'', position = 3, item_name = title post,
              item = baseUrl' @ ''/'' @ post_locale post @ ''/blog/'' @ slug post\<rparr>]\<rparr>)"

definition breadcrumb_baseUrl :: "BreadcrumbSchemaOptions option \<Rightarrow> string" where
  "breadcrumb_baseUrl options_arg =
     nullish (crumb_baseUrl (nullish options_arg no_breadcrumb_options)) BASE_URL"

definition breadcrumb_homeLabel :: "BreadcrumbSchemaOptions option \<Rightarrow> string" where
  "breadcrumb_homeLabel options_arg =
     nullish (homeLabel (nullish options_arg no_breadcrumb_options)) ''Home''"

definition breadcrumb_blogLabel :: "BreadcrumbSchemaOptions option \<Rightarrow> string" where
  "breadcrumb_blogLabel options_arg =
     nullish (blogLabel (nullish options_arg no_breadcrumb_options)) ''Blog''"

section \<open>The generators on a store\<close>

text \<open>
  In the source the post and the options are references to objects, and the schema is a
  new object that \<^verbatim>\<open>generateArticleSchema\<close> assigns to after creating it. To say what a
  call does to the objects that exist, the store is explicit here: a list of objects, an
  address being an index, and a new object going to the end. The nested objects of a
  schema (author, publisher, logo, the list items) are created by the same literal and
  referenced from nowhere else, so they are kept inside the schema's cell. Strings are
  immutable values.

  The two options interfaces have optional properties only and share \<^verbatim>\<open>baseUrl\<close>, so the
  type checker accepts an object of either interface, or one object with the properties of
  both, as the options of either generator; a generator reads its three properties of
  whatever object it is handed, and a property that is not there reads as \<^verbatim>\<open>undefined\<close>.
  An object of the store therefore has two parts: the fields of the interface it was built
  for, and the five option properties it may carry besides. An options object has the
  second part only; a schema built by a generator carries no option property.
\<close>

record OptionProperties =
  prop_baseUrl :: "string option"
  prop_publisherName :: "string option"
  prop_publisherLogo :: "string option"
  prop_homeLabel :: "string option"
  prop_blogLabel :: "string option"

datatype fields =
    PostFields BlogPost
  | ArticleFields ArticleSchema
  | BreadcrumbFields BreadcrumbSchema
  | NoFields

datatype obj = Obj (fields: fields) (option_properties: OptionProperties)

definition no_option_properties :: OptionProperties where
  "no_option_properties =
     \<lparr>prop_baseUrl = None, prop_publisherName = None, prop_publisherLogo = None,
      prop_homeLabel = None, prop_blogLabel = None\<rparr>"

type_synonym addr = nat

type_synonym store = "obj list"

definition lookup :: "store \<Rightarrow> addr \<Rightarrow> obj option" where
  "lookup h a = (if a < length h then Some (h ! a) else None)"

definition alloc :: "store \<Rightarrow> obj \<Rightarrow> addr \<times> store" where
  "alloc h v = (length h, h @ [v])"

text \<open>
  The post: \<^verbatim>\<open>BlogPost\<close> has required fields, so the first argument of a call is an object
  that has them. The read gives \<open>None\<close> for an object without them and for an address that
  is not in the store.
\<close>

definition read_post :: "store \<Rightarrow> addr \<Rightarrow> BlogPost option" where
  "read_post h a =
     (case lookup h a of
        None \<Rightarrow> None
      | Some ob \<Rightarrow> (case fields ob of PostFields post \<Rightarrow> Some post | _ \<Rightarrow> None))"

text \<open>
  The options parameter: an absent argument is the default \<^verbatim>\<open>{}\<close>; otherwise the
  generator's three properties are read off the object at the address, of whatever
  interface it is. Only an address that is not in the store gives \<open>None\<close>.
\<close>

definition read_article_options :: "store \<Rightarrow> addr option \<Rightarrow> ArticleSchemaOptions option" where
  "read_article_options h r =
     (case r of
        None \<Rightarrow> Some no_article_options
      | Some a \<Rightarrow>
          (case lookup h a of
             None \<Rightarrow> None
           | Some ob \<Rightarrow>
               Some \<lparr>baseUrl = prop_baseUrl (option_properties ob),
                     publisherName = prop_publisherName (option_properties ob),
                     publisherLogo = prop_publisherLogo (option_properties ob)\<rparr>))"

definition read_breadcrumb_options ::
  "store \<Rightarrow> addr option \<Rightarrow> BreadcrumbSchemaOptions option" where
  "read_breadcrumb_options h r =
     (case r of
        None \<Rightarrow> Some no_breadcrumb_options
      | Some a \<Rightarrow>
          (case lookup h a of
             None \<Rightarrow> None
           | Some ob \<Rightarrow>
               Some \<lparr>crumb_baseUrl = prop_baseUrl (option_properties ob),
                     homeLabel = prop_homeLabel (option_properties ob),
                     blogLabel = prop_blogLabel (option_properties ob)\<rparr>))"

text \<open>The assignments \<^verbatim>\<open>schema.dateModified = v\<close> and \<^verbatim>\<open>schema.image = v\<close>.\<close>

definition set_dateModified :: "store \<Rightarrow> addr \<Rightarrow> string \<Rightarrow> store option" where
  "set_dateModified h a v =
     (case lookup h a of
        None \<Rightarrow> None
      | Some ob \<Rightarrow>
          (case fields ob of
             ArticleFields s \<Rightarrow>
               Some (h[a := Obj (ArticleFields (s\<lparr>dateModified := Some v\<rparr>)) (option_properties ob)])
           | _ \<Rightarrow> None))"

definition set_image :: "store \<Rightarrow> addr \<Rightarrow> string \<Rightarrow> store option" where
  "set_image h a v =
     (case lookup h a of
        None \<Rightarrow> None
      | Some ob \<Rightarrow>
          (case fields ob of
             ArticleFields s \<Rightarrow>
               Some (h[a := Obj (ArticleFields (s\<lparr>article_image := Some v\<rparr>)) (option_properties ob)])
           | _ \<Rightarrow> None))"

text \<open>
  \<^verbatim>\<open>generateArticleSchema\<close>, statement by statement; every \<^verbatim>\<open>post.f\<close> reads the store as it
  is at that statement. The result is the reference returned and the store after the call.
\<close>

definition generateArticleSchema_call ::
  "store \<Rightarrow> addr \<Rightarrow> addr option \<Rightarrow> (addr \<times> store) option" where
  "generateArticleSchema_call h post_ref options_ref =
     do {
       options \<leftarrow> read_article_options h options_ref;
       let baseUrl' = nullish (baseUrl options) BASE_URL;
       let publisherName' = nullish (publisherName options) PUBLISHER_NAME;
       let publisherLogo' = nullish (publisherLogo options) PUBLISHER_LOGO;
       post \<leftarrow> read_post h post_ref;
       let mainEntityOfPage' = baseUrl' @ ''/'' @ post_locale post @ ''/blog/'' @ slug post;
       let (schema, h1) = alloc h (Obj (ArticleFields
             \<lparr>article_context = ''https://schema.org'',
              article_type = ''Article'',
              headline = title post,
              article_description = description post,
              datePublished = publishedAt post,
              dateModified = None,
              article_author = \<lparr>person_type = ''Person'', person_name = author post\<rparr>,
              publisher = \<lparr>org_type = ''Organization'',
                           org_name = publisherName',
                           logo = Some \<lparr>image_type = ''ImageObject'', url = publisherLogo'\<rparr>\<rparr>,
              mainEntityOfPage = mainEntityOfPage',
              article_image = None\<rparr>) no_option_properties);
       post1 \<leftarrow> read_post h1 post_ref;
       h2 \<leftarrow> (case updatedAt post1 of
                None \<Rightarrow> Some h1
              | Some u \<Rightarrow> if truthy u then set_dateModified h1 schema u else Some h1);
       post2 \<leftarrow> read_post h2 post_ref;
       h3 \<leftarrow> (case featuredImage post2 of
                None \<Rightarrow> Some h2
              | Some f \<Rightarrow>
                  if truthy f
                  then set_image h2 schema (if startsWith f ''http'' then f else baseUrl' @ f)
                  else Some h2);
       Some (schema, h3)
     }"

definition generateBreadcrumbSchema_call ::
  "store \<Rightarrow> addr \<Rightarrow> addr option \<Rightarrow> (addr \<times> store) option" where
  "generateBreadcrumbSchema_call h post_ref options_ref =
     do {
       options \<leftarrow> read_breadcrumb_options h options_ref;
       let baseUrl' = nullish (crumb_baseUrl options) BASE_URL;
       let homeLabel' = nullish (homeLabel options) ''Home'';
       let blogLabel' = nullish (blogLabel options) ''Blog'';
       post \<leftarrow> read_post h post_ref;
       let (schema, h1) = alloc h (Obj (BreadcrumbFields
             \<lparr>breadcrumb_context = ''https://schema.org'',
              breadcrumb_type = ''BreadcrumbList'',
              itemListElement =
                [\<lparr>item_type = ''ListItem'', position = 1, item_name = homeLabel',
                  item = baseUrl' @ ''/'' @ post_locale post\<rparr>,
                 \<lparr>item_type = ''ListItem'', position = 2, item_name = blogLabel',
                  item = baseUrl' @ ''/'' @ post_locale post @ ''/blog''\<rparr>,
                 \<lparr>item_type = ''ListItem'', position = 3, item_name = title post,
                  item = baseUrl' @ ''/'' @ post_locale post @ ''/blog/'' @ slug post\<rparr>]\<rparr>)
             no_option_properties);
       Some (schema, h1)
     }"

section \<open>Sample inputs\<close>

text \<open>
  The post of the spec's example, its remaining fields filled in; the same post with an
  update date and a featured image, so that both assignments of \<^verbatim>\<open>generateArticleSchema\<close>
  run; one options object with properties of both interfaces, and what each generator
  reads of it. The first store holds the updated post and the options object. The second
  holds, at address 0, an object that is the updated post and carries the same option
  properties itself, after a plain post.
\<close>

definition intro_post :: BlogPost where
  "intro_post =
     \<lparr>title = ''Intro'', description = ''d'', slug = ''intro'', publishedAt = ''2024-01-01'',
      updatedAt = None, author = ''Jane'', category = ''hiragana'', tags = [''kana''],
      featuredImage = None, readingTime = 5, difficulty = None, relatedPosts = None,
      post_locale = ''en'', content = ''text'', headings = []\<rparr>"

definition updated_post :: BlogPost where
  "updated_post =
     intro_post\<lparr>updatedAt := Some ''2024-02-01'', featuredImage := Some ''/blog/image1.jpg''\<rparr>"

definition shared_options :: OptionProperties where
  "shared_options =
     \<lparr>prop_baseUrl = Some ''http://localhost:3000'', prop_publisherName = None,
      prop_publisherLogo = None, prop_homeLabel = None, prop_blogLabel = Some ''Articles''\<rparr>"

definition test_article_options :: ArticleSchemaOptions where
  "test_article_options =
     \<lparr>baseUrl = Some ''http://localhost:3000'', publisherName = None, publisherLogo = None\<rparr>"

definition test_breadcrumb_options :: BreadcrumbSchemaOptions where
  "test_breadcrumb_options =
     \<lparr>crumb_baseUrl = Some ''http://localhost:3000'', homeLabel = None, blogLabel = Some ''Articles''\<rparr>"

definition sample_store :: store where
  "sample_store =
     [Obj (PostFields updated_post) no_option_properties, Obj NoFields shared_options]"

definition aliased_store :: store where
  "aliased_store =
     [Obj (PostFields intro_post) no_option_properties,
      Obj (PostFields updated_post) shared_options]"

text \<open>The schemas the generators build for the updated post under the shared options.\<close>

definition updated_article :: ArticleSchema where
  "updated_article =
     \<lparr>article_context = ''https://schema.org'', article_type = ''Article'',
      headline = ''Intro'', article_description = ''d'', datePublished = ''2024-01-01'',
      dateModified = Some ''2024-02-01'',
      article_author = \<lparr>person_type = ''Person'', person_name = ''Jane''\<rparr>,
      publisher = \<lparr>org_type = ''Organization'', org_name = ''KanaDojo'',
                   logo = Some \<lparr>image_type = ''ImageObject'',
                                url = ''https://kanadojo.com/logo.png''\<rparr>\<rparr>,
      mainEntityOfPage = ''http://localhost:3000/en/blog/intro'',
      article_image = Some ''http://localhost:3000/blog/image1.jpg''\<rparr>"

definition updated_breadcrumb :: BreadcrumbSchema where
  "updated_breadcrumb =
     \<lparr>breadcrumb_context = ''https://schema.org'', breadcrumb_type = ''BreadcrumbList'',
      itemListElement =
        [\<lparr>item_type = ''ListItem'', position = 1, item_name = ''Home'',
          item = ''http://localhost:3000/en''\<rparr>,
         \<lparr>item_type = ''ListItem'', position = 2, item_name = ''Articles'',
          item = ''http://localhost:3000/en/blog''\<rparr>,
         \<lparr>item_type = ''ListItem'', position = 3, item_name = ''Intro'',
          item = ''http://localhost:3000/en/blog/intro''\<rparr>]\<rparr>"

section \<open>Auxiliary facts\<close>

lemmas article_effective_defs =
  article_baseUrl_def article_publisherName_def article_publisherLogo_def

lemmas breadcrumb_effective_defs =
  breadcrumb_baseUrl_def breadcrumb_homeLabel_def breadcrumb_blogLabel_def

lemmas effective_simps =
  article_effective_defs breadcrumb_effective_defs nullish_def
  no_article_options_def no_breadcrumb_options_def
  BASE_URL_def PUBLISHER_NAME_def PUBLISHER_LOGO_def

lemma nullish_Some: "nullish (Some v) d = v"
  by (simp add: nullish_def)

subsection \<open>The values in effect\<close>

lemma article_baseUrl_cases:
  "article_baseUrl None = ''https://kanadojo.com''"
  "article_baseUrl (Some (options\<lparr>baseUrl := None\<rparr>)) = ''https://kanadojo.com''"
  "article_baseUrl (Some (options\<lparr>baseUrl := Some b\<rparr>)) = b"
  by (simp_all add: effective_simps)

lemma article_publisherName_cases:
  "article_publisherName None = ''KanaDojo''"
  "article_publisherName (Some (options\<lparr>publisherName := None\<rparr>)) = ''KanaDojo''"
  "article_publisherName (Some (options\<lparr>publisherName := Some n\<rparr>)) = n"
  by (simp_all add: effective_simps)

lemma article_publisherLogo_cases:
  "article_publisherLogo None = ''https://kanadojo.com/logo.png''"
  "article_publisherLogo (Some (options\<lparr>publisherLogo := None\<rparr>)) =
     ''https://kanadojo.com/logo.png''"
  "article_publisherLogo (Some (options\<lparr>publisherLogo := Some l\<rparr>)) = l"
  by (simp_all add: effective_simps)

lemma breadcrumb_baseUrl_cases:
  "breadcrumb_baseUrl None = ''https://kanadojo.com''"
  "breadcrumb_baseUrl (Some (boptions\<lparr>crumb_baseUrl := None\<rparr>)) = ''https://kanadojo.com''"
  "breadcrumb_baseUrl (Some (boptions\<lparr>crumb_baseUrl := Some b\<rparr>)) = b"
  by (simp_all add: effective_simps)

lemma breadcrumb_homeLabel_cases:
  "breadcrumb_homeLabel None = ''Home''"
  "breadcrumb_homeLabel (Some (boptions\<lparr>homeLabel := None\<rparr>)) = ''Home''"
  "breadcrumb_homeLabel (Some (boptions\<lparr>homeLabel := Some n\<rparr>)) = n"
  by (simp_all add: effective_simps)

lemma breadcrumb_blogLabel_cases:
  "breadcrumb_blogLabel None = ''Blog''"
  "breadcrumb_blogLabel (Some (boptions\<lparr>blogLabel := None\<rparr>)) = ''Blog''"
  "breadcrumb_blogLabel (Some (boptions\<lparr>blogLabel := Some l\<rparr>)) = l"
  by (simp_all add: effective_simps)

subsection \<open>The fields of the two schemas\<close>

lemma article_dateModified_eq:
  "dateModified (generateArticleSchema post opts) =
     (if updatedAt post = Some '''' then None else updatedAt post)"
  by (simp add: generateArticleSchema_def Let_def truthy_def split: option.split)

lemma article_image_eq:
  "article_image (generateArticleSchema post opts) =
     (case featuredImage post of
        None \<Rightarrow> None
      | Some f \<Rightarrow>
          if f = '''' then None
          else Some (if startsWith f ''http'' then f else article_baseUrl opts @ f))"
  by (simp add: generateArticleSchema_def article_effective_defs Let_def truthy_def
      split: option.split)

lemma article_mainEntityOfPage_eq:
  "mainEntityOfPage (generateArticleSchema post opts) =
     article_baseUrl opts @ ''/'' @ post_locale post @ ''/blog/'' @ slug post"
  by (simp add: generateArticleSchema_def article_effective_defs Let_def split: option.split)

lemma article_publisher_eq:
  "publisher (generateArticleSchema post opts) =
     \<lparr>org_type = ''Organization'', org_name = article_publisherName opts,
      logo = Some \<lparr>image_type = ''ImageObject'', url = article_publisherLogo opts\<rparr>\<rparr>"
  by (simp add: generateArticleSchema_def article_effective_defs Let_def split: option.split)

lemma breadcrumb_items_eq:
  "itemListElement (generateBreadcrumbSchema post opts) =
     [\<lparr>item_type = ''ListItem'', position = 1, item_name = breadcrumb_homeLabel opts,
       item = breadcrumb_baseUrl opts @ ''/'' @ post_locale post\<rparr>,
      \<lparr>item_type = ''ListItem'', position = 2, item_name = breadcrumb_blogLabel opts,
       item = breadcrumb_baseUrl opts @ ''/'' @ post_locale post @ ''/blog''\<rparr>,
      \<lparr>item_type = ''ListItem'', position = 3, item_name = title post,
       item = breadcrumb_baseUrl opts @ ''/'' @ post_locale post @ ''/blog/'' @ slug post\<rparr>]"
  by (simp add: generateBreadcrumbSchema_def breadcrumb_effective_defs Let_def)

subsection \<open>A schema depends on the options through the values in effect only\<close>

lemma generateArticleSchema_effective:
  "generateArticleSchema post opts =
     generateArticleSchema post
       (Some \<lparr>baseUrl = Some (article_baseUrl opts),
              publisherName = Some (article_publisherName opts),
              publisherLogo = Some (article_publisherLogo opts)\<rparr>)"
  by (simp add: generateArticleSchema_def article_effective_defs Let_def nullish_Some
      cong: option.case_cong if_cong)

lemma generateBreadcrumbSchema_effective:
  "generateBreadcrumbSchema post opts =
     generateBreadcrumbSchema post
       (Some \<lparr>crumb_baseUrl = Some (breadcrumb_baseUrl opts),
              homeLabel = Some (breadcrumb_homeLabel opts),
              blogLabel = Some (breadcrumb_blogLabel opts)\<rparr>)"
  by (simp add: generateBreadcrumbSchema_def breadcrumb_effective_defs Let_def nullish_Some)

lemma generateArticleSchema_cong:
  assumes "article_baseUrl o1 = article_baseUrl o2"
    and "article_publisherName o1 = article_publisherName o2"
    and "article_publisherLogo o1 = article_publisherLogo o2"
  shows "generateArticleSchema post o1 = generateArticleSchema post o2"
  using generateArticleSchema_effective [of post o1] generateArticleSchema_effective [of post o2]
    assms by simp

lemma generateBreadcrumbSchema_cong:
  assumes "breadcrumb_baseUrl o1 = breadcrumb_baseUrl o2"
    and "breadcrumb_homeLabel o1 = breadcrumb_homeLabel o2"
    and "breadcrumb_blogLabel o1 = breadcrumb_blogLabel o2"
  shows "generateBreadcrumbSchema post o1 = generateBreadcrumbSchema post o2"
  using generateBreadcrumbSchema_effective [of post o1]
    generateBreadcrumbSchema_effective [of post o2] assms by simp

lemma article_defaults:
  "generateArticleSchema post None =
     generateArticleSchema post
       (Some \<lparr>baseUrl = Some ''https://kanadojo.com'', publisherName = Some ''KanaDojo'',
              publisherLogo = Some ''https://kanadojo.com/logo.png''\<rparr>)"
  "generateArticleSchema post (Some (options\<lparr>baseUrl := None\<rparr>)) =
     generateArticleSchema post (Some (options\<lparr>baseUrl := Some ''https://kanadojo.com''\<rparr>))"
  "generateArticleSchema post (Some (options\<lparr>publisherName := None\<rparr>)) =
     generateArticleSchema post (Some (options\<lparr>publisherName := Some ''KanaDojo''\<rparr>))"
  "generateArticleSchema post (Some (options\<lparr>publisherLogo := None\<rparr>)) =
     generateArticleSchema post
       (Some (options\<lparr>publisherLogo := Some ''https://kanadojo.com/logo.png''\<rparr>))"
  by (rule generateArticleSchema_cong; simp add: effective_simps)+

lemma breadcrumb_defaults:
  "generateBreadcrumbSchema post None =
     generateBreadcrumbSchema post
       (Some \<lparr>crumb_baseUrl = Some ''https://kanadojo.com'', homeLabel = Some ''Home'',
              blogLabel = Some ''Blog''\<rparr>)"
  "generateBreadcrumbSchema post (Some (boptions\<lparr>crumb_baseUrl := None\<rparr>)) =
     generateBreadcrumbSchema post
       (Some (boptions\<lparr>crumb_baseUrl := Some ''https://kanadojo.com''\<rparr>))"
  "generateBreadcrumbSchema post (Some (boptions\<lparr>homeLabel := None\<rparr>)) =
     generateBreadcrumbSchema post (Some (boptions\<lparr>homeLabel := Some ''Home''\<rparr>))"
  "generateBreadcrumbSchema post (Some (boptions\<lparr>blogLabel := None\<rparr>)) =
     generateBreadcrumbSchema post (Some (boptions\<lparr>blogLabel := Some ''Blog''\<rparr>))"
  by (rule generateBreadcrumbSchema_cong; simp add: effective_simps)+

lemma article_overrides:
  "mainEntityOfPage (generateArticleSchema post (Some (options\<lparr>baseUrl := Some b\<rparr>))) =
     b @ ''/'' @ post_locale post @ ''/blog/'' @ slug post"
  "publisher (generateArticleSchema post
       (Some (options\<lparr>publisherName := Some n, publisherLogo := Some l\<rparr>))) =
     \<lparr>org_type = ''Organization'', org_name = n,
      logo = Some \<lparr>image_type = ''ImageObject'', url = l\<rparr>\<rparr>"
  by (simp_all add: article_mainEntityOfPage_eq article_publisher_eq effective_simps)

lemma breadcrumb_overrides:
  "itemListElement (generateBreadcrumbSchema post
       (Some \<lparr>crumb_baseUrl = Some b, homeLabel = Some hl, blogLabel = Some bl\<rparr>)) =
     [\<lparr>item_type = ''ListItem'', position = 1, item_name = hl,
       item = b @ ''/'' @ post_locale post\<rparr>,
      \<lparr>item_type = ''ListItem'', position = 2, item_name = bl,
       item = b @ ''/'' @ post_locale post @ ''/blog''\<rparr>,
      \<lparr>item_type = ''ListItem'', position = 3, item_name = title post,
       item = b @ ''/'' @ post_locale post @ ''/blog/'' @ slug post\<rparr>]"
  by (simp add: breadcrumb_items_eq effective_simps)

subsection \<open>The store\<close>

lemma lookup_alloc_old: "a < length h \<Longrightarrow> lookup (h @ [v]) a = lookup h a"
  by (simp add: lookup_def nth_append)

lemma lookup_alloc_new: "lookup (h @ [v]) (length h) = Some v"
  by (simp add: lookup_def)

lemma read_post_in_store: "read_post h a = Some post \<Longrightarrow> a < length h"
  by (auto simp: read_post_def lookup_def split: if_splits)

lemma read_post_alloc: "read_post h a = Some post \<Longrightarrow> read_post (h @ [v]) a = Some post"
  by (frule read_post_in_store) (simp add: read_post_def lookup_alloc_old)

lemma set_dateModified_new:
  "set_dateModified (h @ [Obj (ArticleFields s) ps]) (length h) v =
     Some (h @ [Obj (ArticleFields (s\<lparr>dateModified := Some v\<rparr>)) ps])"
  by (simp add: set_dateModified_def lookup_alloc_new)

lemma set_image_new:
  "set_image (h @ [Obj (ArticleFields s) ps]) (length h) v =
     Some (h @ [Obj (ArticleFields (s\<lparr>article_image := Some v\<rparr>)) ps])"
  by (simp add: set_image_def lookup_alloc_new)

text \<open>
  A call on a store returns the address of one new object, which holds the schema that
  the generator computes from the post and the options as values; the rest of the store
  is as it was.
\<close>

lemma generateArticleSchema_call_eq:
  assumes "read_post h post_ref = Some post"
    and "read_article_options h options_ref = Some options"
  shows "generateArticleSchema_call h post_ref options_ref =
           Some (length h,
                 h @ [Obj (ArticleFields (generateArticleSchema post (Some options)))
                        no_option_properties])"
  using assms
  by (simp add: generateArticleSchema_call_def generateArticleSchema_def alloc_def Let_def
      nullish_def read_post_alloc set_dateModified_new set_image_new
      split: option.split)

lemma generateBreadcrumbSchema_call_eq:
  assumes "read_post h post_ref = Some post"
    and "read_breadcrumb_options h options_ref = Some options"
  shows "generateBreadcrumbSchema_call h post_ref options_ref =
           Some (length h,
                 h @ [Obj (BreadcrumbFields (generateBreadcrumbSchema post (Some options)))
                        no_option_properties])"
  using assms
  by (simp add: generateBreadcrumbSchema_call_def generateBreadcrumbSchema_def alloc_def Let_def
      nullish_def)

text \<open>
  An options argument that is in the store can always be read, whatever the object is.
\<close>

lemma read_article_options_total:
  "a < length h \<Longrightarrow> \<exists>options. read_article_options h (Some a) = Some options"
  by (simp add: read_article_options_def lookup_def)

lemma read_breadcrumb_options_total:
  "a < length h \<Longrightarrow> \<exists>options. read_breadcrumb_options h (Some a) = Some options"
  by (simp add: read_breadcrumb_options_def lookup_def)

lemmas sample_defs =
  sample_store_def aliased_store_def updated_post_def intro_post_def shared_options_def
  test_article_options_def test_breadcrumb_options_def no_option_properties_def
  updated_article_def updated_breadcrumb_def

lemma sample_store_reads:
  "read_post sample_store 0 = Some updated_post"
  "read_article_options sample_store (Some 1) = Some test_article_options"
  "read_breadcrumb_options sample_store (Some 1) = Some test_breadcrumb_options"
  "read_article_options sample_store None = Some no_article_options"
  by (simp_all add: read_post_def read_article_options_def read_breadcrumb_options_def
      lookup_def sample_store_def shared_options_def test_article_options_def
      test_breadcrumb_options_def)

lemma aliased_store_reads:
  "read_post aliased_store 1 = Some updated_post"
  "read_article_options aliased_store (Some 1) = Some test_article_options"
  "read_breadcrumb_options aliased_store (Some 1) = Some test_breadcrumb_options"
  by (simp_all add: read_post_def read_article_options_def read_breadcrumb_options_def
      lookup_def aliased_store_def shared_options_def test_article_options_def
      test_breadcrumb_options_def)

text \<open>The calls on the sample stores, evaluated statement by statement.\<close>

lemmas call_eval_simps =
  generateArticleSchema_call_def generateBreadcrumbSchema_call_def
  read_post_def read_article_options_def read_breadcrumb_options_def
  set_dateModified_def set_image_def lookup_def alloc_def
  nullish_def truthy_def startsWith_def
  BASE_URL_def PUBLISHER_NAME_def PUBLISHER_LOGO_def
  no_article_options_def no_breadcrumb_options_def sample_defs

lemma sample_store_calls:
  "generateArticleSchema_call sample_store 0 (Some 1) =
     Some (2, sample_store @ [Obj (ArticleFields updated_article) no_option_properties])"
  "generateBreadcrumbSchema_call sample_store 0 (Some 1) =
     Some (2, sample_store @ [Obj (BreadcrumbFields updated_breadcrumb) no_option_properties])"
  by (simp_all add: call_eval_simps)

lemma aliased_store_calls:
  "generateArticleSchema_call aliased_store 1 (Some 1) =
     Some (2, aliased_store @ [Obj (ArticleFields updated_article) no_option_properties])"
  "generateBreadcrumbSchema_call aliased_store 1 (Some 1) =
     Some (2, aliased_store @ [Obj (BreadcrumbFields updated_breadcrumb) no_option_properties])"
  by (simp_all add: call_eval_simps)

section \<open>Properties of generateArticleSchema\<close>

text \<open>
  C1, as amended: the schema has a \<^verbatim>\<open>dateModified\<close> field if and only if \<^verbatim>\<open>post.updatedAt\<close>
  is present and is not the empty string, and the field then equals \<^verbatim>\<open>post.updatedAt\<close>;
  otherwise the field is absent. The guard of the source is \<^verbatim>\<open>if (post.updatedAt)\<close>, which
  the empty string fails.
\<close>

theorem dateModified_iff_updatedAt_truthy:
  "(dateModified (generateArticleSchema post opts) = None
      \<longleftrightarrow> updatedAt post = None \<or> updatedAt post = Some '''') \<and>
   dateModified (generateArticleSchema post opts) =
     (if updatedAt post = Some '''' then None else updatedAt post)"
  by (simp add: article_dateModified_eq)

text \<open>
  C1 as stated fails for a post whose \<^verbatim>\<open>updatedAt\<close> is the empty string: the property is
  present, the field \<^verbatim>\<open>dateModified\<close> is not.
\<close>

theorem dateModified_absent_for_empty_updatedAt:
  "\<not> (dateModified (generateArticleSchema (intro_post\<lparr>updatedAt := Some ''''\<rparr>) None) \<noteq> None
       \<longleftrightarrow> updatedAt (intro_post\<lparr>updatedAt := Some ''''\<rparr>) \<noteq> None)"
  by (simp add: article_dateModified_eq)

text \<open>
  C2, as amended: the schema has an \<^verbatim>\<open>image\<close> field if and only if \<^verbatim>\<open>post.featuredImage\<close> is
  present and is not the empty string; the field is then \<^verbatim>\<open>post.featuredImage\<close> unmodified
  if that starts with \<^verbatim>\<open>http\<close>, and the base URL in effect followed by
  \<^verbatim>\<open>post.featuredImage\<close> otherwise.
\<close>

theorem image_iff_featuredImage_truthy:
  "(article_image (generateArticleSchema post opts) = None
      \<longleftrightarrow> featuredImage post = None \<or> featuredImage post = Some '''') \<and>
   article_image (generateArticleSchema post opts) =
     (case featuredImage post of
        None \<Rightarrow> None
      | Some f \<Rightarrow>
          if f = '''' then None
          else Some (if startsWith f ''http'' then f else article_baseUrl opts @ f))"
  by (simp add: article_image_eq split: option.split)

text \<open>
  C2 as stated fails for a post whose \<^verbatim>\<open>featuredImage\<close> is the empty string: the property
  is present, the field \<^verbatim>\<open>image\<close> is not.
\<close>

theorem image_absent_for_empty_featuredImage:
  "\<not> (article_image (generateArticleSchema (intro_post\<lparr>featuredImage := Some ''''\<rparr>) None) \<noteq> None
       \<longleftrightarrow> featuredImage (intro_post\<lparr>featuredImage := Some ''''\<rparr>) \<noteq> None)"
  by (simp add: article_image_eq)

text \<open>
  C3: the required fields. The markers are \<^verbatim>\<open>https://schema.org\<close> and \<^verbatim>\<open>Article\<close>; headline,
  description and datePublished are the post's title, description and publishedAt; the
  author is the Person named \<^verbatim>\<open>post.author\<close>; the publisher is the Organization with the
  publisher name in effect and the ImageObject logo whose url is the publisher logo in effect.
\<close>

theorem article_required_fields:
  "article_context (generateArticleSchema post opts) = ''https://schema.org'' \<and>
   article_type (generateArticleSchema post opts) = ''Article'' \<and>
   headline (generateArticleSchema post opts) = title post \<and>
   article_description (generateArticleSchema post opts) = description post \<and>
   datePublished (generateArticleSchema post opts) = publishedAt post \<and>
   article_author (generateArticleSchema post opts) =
     \<lparr>person_type = ''Person'', person_name = author post\<rparr> \<and>
   publisher (generateArticleSchema post opts) =
     \<lparr>org_type = ''Organization'', org_name = article_publisherName opts,
      logo = Some \<lparr>image_type = ''ImageObject'', url = article_publisherLogo opts\<rparr>\<rparr>"
  by (simp add: generateArticleSchema_def article_effective_defs Let_def
      split: option.split)

text \<open>
  C4: \<^verbatim>\<open>mainEntityOfPage\<close> is the base URL in effect, \<^verbatim>\<open>/\<close>, the locale, \<^verbatim>\<open>/blog/\<close> and the
  slug. For the post of the spec's example (whatever its other fields) and no options it is
  \<^verbatim>\<open>https://kanadojo.com/en/blog/intro\<close>.
\<close>

theorem mainEntityOfPage_is_post_url:
  "mainEntityOfPage (generateArticleSchema post opts) =
     article_baseUrl opts @ ''/'' @ post_locale post @ ''/blog/'' @ slug post \<and>
   mainEntityOfPage
     (generateArticleSchema
        (post\<lparr>title := ''Intro'', slug := ''intro'', post_locale := ''en'',
              publishedAt := ''2024-01-01'', author := ''Jane'', description := ''d''\<rparr>) None) =
     ''https://kanadojo.com/en/blog/intro''"
  by (simp add: article_mainEntityOfPage_eq article_baseUrl_cases)

text \<open>
  C9: the publisher of the schema always has a logo, the ImageObject whose url is the
  publisher logo in effect, although the interface declares the field optional.
\<close>

theorem publisher_logo_always_present:
  "logo (publisher (generateArticleSchema post opts)) =
     Some \<lparr>image_type = ''ImageObject'', url = article_publisherLogo opts\<rparr> \<and>
   logo (publisher (generateArticleSchema post opts)) \<noteq> None"
  by (simp add: article_publisher_eq)

section \<open>Properties of generateBreadcrumbSchema\<close>

text \<open>
  C5: \<^verbatim>\<open>itemListElement\<close> has exactly three entries, each a \<^verbatim>\<open>ListItem\<close>, at positions 1, 2, 3
  in this order: the home label in effect with the URL of the locale, the blog label in
  effect with the URL of the blog, and the post's title with the URL of the post.
\<close>

theorem breadcrumb_three_items:
  "length (itemListElement (generateBreadcrumbSchema post opts)) = 3 \<and>
   map item_type (itemListElement (generateBreadcrumbSchema post opts)) =
     [''ListItem'', ''ListItem'', ''ListItem''] \<and>
   map position (itemListElement (generateBreadcrumbSchema post opts)) = [1, 2, 3] \<and>
   map item_name (itemListElement (generateBreadcrumbSchema post opts)) =
     [breadcrumb_homeLabel opts, breadcrumb_blogLabel opts, title post] \<and>
   map item (itemListElement (generateBreadcrumbSchema post opts)) =
     [breadcrumb_baseUrl opts @ ''/'' @ post_locale post,
      breadcrumb_baseUrl opts @ ''/'' @ post_locale post @ ''/blog'',
      breadcrumb_baseUrl opts @ ''/'' @ post_locale post @ ''/blog/'' @ slug post]"
  by (simp add: breadcrumb_items_eq)

text \<open>
  C10: the breadcrumb schema depends on the post through its locale, slug and title only:
  two posts that agree on these three fields give equal schemas under the same options.
\<close>

theorem breadcrumb_depends_on_locale_slug_title:
  assumes "post_locale post1 = post_locale post2"
    and "slug post1 = slug post2"
    and "title post1 = title post2"
  shows "generateBreadcrumbSchema post1 opts = generateBreadcrumbSchema post2 opts"
  using assms by (simp add: generateBreadcrumbSchema_def Let_def)

text \<open>Two posts that differ in five other fields.\<close>

theorem breadcrumb_depends_on_locale_slug_title_witness:
  "post_locale intro_post =
     post_locale (intro_post\<lparr>description := ''other'', publishedAt := ''2023-12-31'',
        updatedAt := Some ''2024-05-05'', author := ''John'', featuredImage := Some ''/x.png''\<rparr>) \<and>
   slug intro_post =
     slug (intro_post\<lparr>description := ''other'', publishedAt := ''2023-12-31'',
        updatedAt := Some ''2024-05-05'', author := ''John'', featuredImage := Some ''/x.png''\<rparr>) \<and>
   title intro_post =
     title (intro_post\<lparr>description := ''other'', publishedAt := ''2023-12-31'',
        updatedAt := Some ''2024-05-05'', author := ''John'', featuredImage := Some ''/x.png''\<rparr>) \<and>
   intro_post \<noteq>
     intro_post\<lparr>description := ''other'', publishedAt := ''2023-12-31'',
        updatedAt := Some ''2024-05-05'', author := ''John'', featuredImage := Some ''/x.png''\<rparr> \<and>
   generateBreadcrumbSchema intro_post (Some test_breadcrumb_options) =
     generateBreadcrumbSchema
       (intro_post\<lparr>description := ''other'', publishedAt := ''2023-12-31'',
          updatedAt := Some ''2024-05-05'', author := ''John'', featuredImage := Some ''/x.png''\<rparr>)
       (Some test_breadcrumb_options)"
  using breadcrumb_depends_on_locale_slug_title
    [of intro_post "intro_post\<lparr>description := ''other'', publishedAt := ''2023-12-31'',
        updatedAt := Some ''2024-05-05'', author := ''John'', featuredImage := Some ''/x.png''\<rparr>"
        "Some test_breadcrumb_options"]
  by (simp add: intro_post_def)

section \<open>Properties of both generators\<close>

text \<open>
  C6: defaults and overrides. A call without options, or with an options object in which
  an override is undefined, returns what the call returns when the constant is supplied
  for it: \<^verbatim>\<open>https://kanadojo.com\<close>, \<^verbatim>\<open>KanaDojo\<close> and \<^verbatim>\<open>https://kanadojo.com/logo.png\<close> for the
  article, \<^verbatim>\<open>https://kanadojo.com\<close>, \<^verbatim>\<open>Home\<close> and \<^verbatim>\<open>Blog\<close> for the breadcrumbs. An
  override that is supplied is the value the output carries.
\<close>

theorem defaults_and_overrides:
  "generateArticleSchema post None =
     generateArticleSchema post
       (Some \<lparr>baseUrl = Some ''https://kanadojo.com'', publisherName = Some ''KanaDojo'',
              publisherLogo = Some ''https://kanadojo.com/logo.png''\<rparr>) \<and>
   generateArticleSchema post (Some (options\<lparr>baseUrl := None\<rparr>)) =
     generateArticleSchema post (Some (options\<lparr>baseUrl := Some ''https://kanadojo.com''\<rparr>)) \<and>
   generateArticleSchema post (Some (options\<lparr>publisherName := None\<rparr>)) =
     generateArticleSchema post (Some (options\<lparr>publisherName := Some ''KanaDojo''\<rparr>)) \<and>
   generateArticleSchema post (Some (options\<lparr>publisherLogo := None\<rparr>)) =
     generateArticleSchema post
       (Some (options\<lparr>publisherLogo := Some ''https://kanadojo.com/logo.png''\<rparr>)) \<and>
   mainEntityOfPage (generateArticleSchema post (Some (options\<lparr>baseUrl := Some b\<rparr>))) =
     b @ ''/'' @ post_locale post @ ''/blog/'' @ slug post \<and>
   publisher (generateArticleSchema post
       (Some (options\<lparr>publisherName := Some n, publisherLogo := Some l\<rparr>))) =
     \<lparr>org_type = ''Organization'', org_name = n,
      logo = Some \<lparr>image_type = ''ImageObject'', url = l\<rparr>\<rparr> \<and>
   generateBreadcrumbSchema post None =
     generateBreadcrumbSchema post
       (Some \<lparr>crumb_baseUrl = Some ''https://kanadojo.com'', homeLabel = Some ''Home'',
              blogLabel = Some ''Blog''\<rparr>) \<and>
   generateBreadcrumbSchema post (Some (boptions\<lparr>crumb_baseUrl := None\<rparr>)) =
     generateBreadcrumbSchema post
       (Some (boptions\<lparr>crumb_baseUrl := Some ''https://kanadojo.com''\<rparr>)) \<and>
   generateBreadcrumbSchema post (Some (boptions\<lparr>homeLabel := None\<rparr>)) =
     generateBreadcrumbSchema post (Some (boptions\<lparr>homeLabel := Some ''Home''\<rparr>)) \<and>
   generateBreadcrumbSchema post (Some (boptions\<lparr>blogLabel := None\<rparr>)) =
     generateBreadcrumbSchema post (Some (boptions\<lparr>blogLabel := Some ''Blog''\<rparr>)) \<and>
   itemListElement (generateBreadcrumbSchema post
       (Some \<lparr>crumb_baseUrl = Some b, homeLabel = Some hl, blogLabel = Some bl\<rparr>)) =
     [\<lparr>item_type = ''ListItem'', position = 1, item_name = hl,
       item = b @ ''/'' @ post_locale post\<rparr>,
      \<lparr>item_type = ''ListItem'', position = 2, item_name = bl,
       item = b @ ''/'' @ post_locale post @ ''/blog''\<rparr>,
      \<lparr>item_type = ''ListItem'', position = 3, item_name = title post,
       item = b @ ''/'' @ post_locale post @ ''/blog/'' @ slug post\<rparr>]"
  by (intro conjI article_defaults breadcrumb_defaults article_overrides breadcrumb_overrides)

text \<open>
  C7: both generators are deterministic and without side effect. For two stores, each
  holding the same post and the same options (at whatever addresses, and whatever else the
  stores hold), each call returns the address of a new object, the two new objects are
  equal, and each store after the call is the store before it followed by the new object.
\<close>

theorem generators_deterministic_no_side_effect:
  assumes "read_post h1 p1 = Some post" and "read_post h2 p2 = Some post"
    and "read_article_options h1 ao1 = Some aopts"
    and "read_article_options h2 ao2 = Some aopts"
    and "read_breadcrumb_options h1 bo1 = Some bopts"
    and "read_breadcrumb_options h2 bo2 = Some bopts"
  shows "\<exists>a b.
     generateArticleSchema_call h1 p1 ao1 = Some (length h1, h1 @ [a]) \<and>
     generateArticleSchema_call h2 p2 ao2 = Some (length h2, h2 @ [a]) \<and>
     generateBreadcrumbSchema_call h1 p1 bo1 = Some (length h1, h1 @ [b]) \<and>
     generateBreadcrumbSchema_call h2 p2 bo2 = Some (length h2, h2 @ [b])"
  using assms by (simp add: generateArticleSchema_call_eq generateBreadcrumbSchema_call_eq)

text \<open>
  The two sample stores. In the first, one options object is handed to both generators;
  in the second the post is at another address and is handed as its own options. The post
  has an update date and a featured image, so both assignments run; the four calls are
  also evaluated, and give the same two schemas.
\<close>

theorem generators_deterministic_no_side_effect_witness:
  "read_post sample_store 0 = Some updated_post \<and>
   read_post aliased_store 1 = Some updated_post \<and>
   read_article_options sample_store (Some 1) = Some test_article_options \<and>
   read_article_options aliased_store (Some 1) = Some test_article_options \<and>
   read_breadcrumb_options sample_store (Some 1) = Some test_breadcrumb_options \<and>
   read_breadcrumb_options aliased_store (Some 1) = Some test_breadcrumb_options \<and>
   (\<exists>a b.
      generateArticleSchema_call sample_store 0 (Some 1) =
        Some (length sample_store, sample_store @ [a]) \<and>
      generateArticleSchema_call aliased_store 1 (Some 1) =
        Some (length aliased_store, aliased_store @ [a]) \<and>
      generateBreadcrumbSchema_call sample_store 0 (Some 1) =
        Some (length sample_store, sample_store @ [b]) \<and>
      generateBreadcrumbSchema_call aliased_store 1 (Some 1) =
        Some (length aliased_store, aliased_store @ [b])) \<and>
   generateArticleSchema_call sample_store 0 (Some 1) =
     Some (2, sample_store @ [Obj (ArticleFields updated_article) no_option_properties]) \<and>
   generateArticleSchema_call aliased_store 1 (Some 1) =
     Some (2, aliased_store @ [Obj (ArticleFields updated_article) no_option_properties]) \<and>
   generateBreadcrumbSchema_call sample_store 0 (Some 1) =
     Some (2, sample_store @ [Obj (BreadcrumbFields updated_breadcrumb) no_option_properties]) \<and>
   generateBreadcrumbSchema_call aliased_store 1 (Some 1) =
     Some (2, aliased_store @ [Obj (BreadcrumbFields updated_breadcrumb) no_option_properties])"
  using generators_deterministic_no_side_effect
    [OF sample_store_reads(1) aliased_store_reads(1) sample_store_reads(2)
        aliased_store_reads(2) sample_store_reads(3) aliased_store_reads(3)]
    sample_store_reads aliased_store_reads sample_store_calls aliased_store_calls
  by blast



end
